theory Spec2Isabelle
  imports Main "HOL-Library.AList"
begin

section \<open>Values carried by the protocol\<close>

text \<open>
  Arguments, results and failure values are \<open>any\<close> in the source. The protocol code
  inspects them in one way only: \<open>data instanceof Error\<close>, followed by reads of
  \<open>message\<close>, \<open>name\<close> and \<open>stack\<close>. Values are therefore plain data plus
  \<open>Error\<close> objects. An \<open>Error\<close> carries a message and a name (strings, as the
  TypeScript library types them) and a stack, which is absent, a string (as the runtime
  produces it) or an array of lines (as \<open>ChannelClient.doRequest\<close> assigns it from
  the wire).
\<close>

datatype stack = NoStack | StackString string | StackLines "string list"

datatype jsval =
    Undefined
  | Null
  | Bool bool
  | Num int
  | Str string
  | Arr "jsval list"
  | Obj "(string \<times> jsval) list"
  | ErrorV (err_message: string) (err_name: string) (err_stack: stack)

text \<open>\<open>data instanceof Error\<close>.\<close>

fun instanceof_Error :: "jsval \<Rightarrow> bool" where
  "instanceof_Error (ErrorV _ _ _) = True"
| "instanceof_Error _ = False"

text \<open>\<open>s.split(sep)\<close> for a one-character separator.\<close>

fun split_on :: "char \<Rightarrow> string \<Rightarrow> string list" where
  "split_on sep [] = [[]]"
| "split_on sep (c # cs) =
     (if c = sep then [] # split_on sep cs
      else (case split_on sep cs of
              [] \<Rightarrow> [[c]]
            | l # ls \<Rightarrow> (c # l) # ls))"

text \<open>
  \<open>data.stack ? (data.stack.split ? data.stack.split('\n') : data.stack) : void 0\<close>:
  an absent stack and the empty string are falsy; a string has \<open>split\<close>; an array is
  truthy, has no \<open>split\<close> and is passed on as it is.
\<close>

definition wire_stack :: "stack \<Rightarrow> string list option" where
  "wire_stack st =
     (case st of
        NoStack \<Rightarrow> None
      | StackString s \<Rightarrow> (if s = [] then None else Some (split_on (CHR 0x0A) s))
      | StackLines ls \<Rightarrow> Some ls)"

text \<open>\<open>error.stack = response.data.stack\<close> on the receiving side.\<close>

definition stack_of_wire :: "string list option \<Rightarrow> stack" where
  "stack_of_wire w = (case w of None \<Rightarrow> NoStack | Some ls \<Rightarrow> StackLines ls)"

section \<open>Wire protocol\<close>

datatype MessageType =
    RequestPromise
  | RequestPromiseCancel
  | ResponseInitialize
  | ResponsePromiseSuccess
  | ResponsePromiseProgress
  | ResponsePromiseError
  | ResponsePromiseErrorObj
  | RequestEventListen
  | RequestEventDispose
  | ResponseEventFire

text \<open>The numeric value of each enumeration member, in declaration order.\<close>

fun tag :: "MessageType \<Rightarrow> nat" where
  "tag RequestPromise = 0"
| "tag RequestPromiseCancel = 1"
| "tag ResponseInitialize = 2"
| "tag ResponsePromiseSuccess = 3"
| "tag ResponsePromiseProgress = 4"
| "tag ResponsePromiseError = 5"
| "tag ResponsePromiseErrorObj = 6"
| "tag RequestEventListen = 7"
| "tag RequestEventDispose = 8"
| "tag ResponseEventFire = 9"

definition isResponse :: "MessageType \<Rightarrow> bool" where
  "isResponse messageType = (tag messageType \<ge> tag ResponseInitialize)"

text \<open>
  A message on the transport: \<open>IRawRequest\<close> and \<open>IRawResponse\<close> as the tagged union
  the two endpoints produce, one constructor per \<open>MessageType\<close>, with the fields that
  kind of message is built with. \<open>ResPromiseError\<close> carries the plain object
  \<open>{message, name, stack}\<close>. \<open>Hello\<close> is the bare client identifier that
  \<open>IPCClient\<close> sends first; it has no \<open>type\<close>.
\<close>

datatype message =
    Hello string
  | ReqPromise nat string string jsval
  | ReqPromiseCancel nat
  | ResInitialize
  | ResPromiseSuccess nat jsval
  | ResPromiseProgress nat jsval
  | ResPromiseError nat string string "string list option"
  | ResPromiseErrorObj nat jsval
  | ReqEventListen nat string string jsval
  | ReqEventDispose nat
  | ResEventFire nat jsval

fun type_of :: "message \<Rightarrow> MessageType option" where
  "type_of (Hello _) = None"
| "type_of (ReqPromise _ _ _ _) = Some RequestPromise"
| "type_of (ReqPromiseCancel _) = Some RequestPromiseCancel"
| "type_of ResInitialize = Some ResponseInitialize"
| "type_of (ResPromiseSuccess _ _) = Some ResponsePromiseSuccess"
| "type_of (ResPromiseProgress _ _) = Some ResponsePromiseProgress"
| "type_of (ResPromiseError _ _ _ _) = Some ResponsePromiseError"
| "type_of (ResPromiseErrorObj _ _) = Some ResponsePromiseErrorObj"
| "type_of (ReqEventListen _ _ _ _) = Some RequestEventListen"
| "type_of (ReqEventDispose _) = Some RequestEventDispose"
| "type_of (ResEventFire _ _) = Some ResponseEventFire"

text \<open>\<open>message.id\<close>; \<open>ResponseInitialize\<close> is sent without one.\<close>

fun id_of :: "message \<Rightarrow> nat option" where
  "id_of (Hello _) = None"
| "id_of (ReqPromise i _ _ _) = Some i"
| "id_of (ReqPromiseCancel i) = Some i"
| "id_of ResInitialize = None"
| "id_of (ResPromiseSuccess i _) = Some i"
| "id_of (ResPromiseProgress i _) = Some i"
| "id_of (ResPromiseError i _ _ _) = Some i"
| "id_of (ResPromiseErrorObj i _) = Some i"
| "id_of (ReqEventListen i _ _ _) = Some i"
| "id_of (ReqEventDispose i) = Some i"
| "id_of (ResEventFire i _) = Some i"

text \<open>\<open>message.data\<close>, read without looking at the type (requests have none).\<close>

fun data_of :: "message \<Rightarrow> jsval" where
  "data_of (ResPromiseSuccess _ d) = d"
| "data_of (ResPromiseProgress _ d) = d"
| "data_of (ResPromiseError _ m n st) =
     Obj [(''message'', Str m), (''name'', Str n),
          (''stack'', (case st of None \<Rightarrow> Undefined | Some ls \<Rightarrow> Arr (map Str ls)))]"
| "data_of (ResPromiseErrorObj _ d) = d"
| "data_of (ResEventFire _ d) = d"
| "data_of _ = Undefined"

text \<open>
  The transport is taken to deliver what one side sends to the other side in send order.
  \<open>sent_since before after\<close> is what was sent between two states of a send log.
\<close>

definition sent_since :: "message list \<Rightarrow> message list \<Rightarrow> message list" where
  "sent_since before after = drop (length before) after"

section \<open>Channels\<close>

text \<open>
  Modelled from the spec: the eventual result (\<open>TPromise\<close>, whose code is not part of
  the sources at hand) is "a value that will be produced asynchronously, exactly once,
  possibly preceded by progress notifications, and which supports cancellation".
  What \<open>channel.call\<close> does when invoked is therefore one of: throw; return a result
  that is already resolved or already rejected; return a pending result, which the
  implementation later drives with progress values and one final settlement. The spec
  leaves open when a callback registered on an already settled result runs; here it runs
  at once, before \<open>then\<close> returns (these eventual results notify synchronously).
  Callbacks on a pending result run when the implementation reports progress or settles.
\<close>

datatype call_result = Throws jsval | Resolved jsval | Rejected jsval | Pending

datatype listen_result = ListenThrows jsval | Stream

record channel =
  call :: "string \<Rightarrow> jsval \<Rightarrow> call_result"
  listen :: "string \<Rightarrow> jsval \<Rightarrow> listen_result"

text \<open>What a pending eventual result reports to its callbacks.\<close>

datatype settlement = Success jsval | Failure jsval

datatype op_event = Progressed jsval | Settled settlement

section \<open>Channel server\<close>

text \<open>
  A registered disposer either cancels the eventual result of a call or removes the
  subscription of a listen. Eventual results and subscriptions are objects of the
  channel implementation; the server refers to them by a handle.
\<close>

datatype disposable = CancelPromise nat | RemoveListener nat

record ChannelServer =
  channels_s :: "string \<rightharpoonup> channel"
  activeRequests_s :: "nat \<rightharpoonup> disposable"
  sent_s :: "message list"
  pending_s :: "nat \<rightharpoonup> nat"
  subscribed_s :: "nat \<rightharpoonup> nat"
  nextHandle_s :: nat
  disposed_s :: "disposable list"
  uncaught_s :: "jsval list"

text \<open>
  \<open>sent_s\<close> is the sequence of \<open>protocol.send\<close> calls. \<open>pending_s\<close> maps the handle
  of each eventual result that still has the callbacks of \<open>onPromise\<close> attached to the
  request id they close over; \<open>subscribed_s\<close> does the same for the forwarders of
  \<open>onEventListen\<close>. \<open>disposed_s\<close> logs every invocation of a disposer, and
  \<open>uncaught_s\<close> every exception that leaves \<open>onMessage\<close>.
\<close>

definition new_ChannelServer :: ChannelServer where
  "new_ChannelServer =
     \<lparr>channels_s = Map.empty, activeRequests_s = Map.empty, sent_s = [ResInitialize],
      pending_s = Map.empty, subscribed_s = Map.empty, nextHandle_s = 0,
      disposed_s = [], uncaught_s = []\<rparr>"

definition registerChannel :: "string \<Rightarrow> channel \<Rightarrow> ChannelServer \<Rightarrow> ChannelServer" where
  "registerChannel channelName ch s = s\<lparr>channels_s := (channels_s s)(channelName \<mapsto> ch)\<rparr>"

definition send_s :: "message \<Rightarrow> ChannelServer \<Rightarrow> ChannelServer" where
  "send_s m s = s\<lparr>sent_s := sent_s s @ [m]\<rparr>"

text \<open>
  The \<open>TypeError\<close> that reading \<open>call\<close> or \<open>listen\<close> of an absent channel raises. Its
  message is the engine's; the stack text is left out.
\<close>

definition absent_channel_error :: "string \<Rightarrow> jsval" where
  "absent_channel_error prop =
     ErrorV (''Cannot read property '' @ prop @ '' of undefined'') ''TypeError'' NoStack"

text \<open>The three callbacks that \<open>onPromise\<close> passes to \<open>promise.then\<close>.\<close>

definition error_response :: "nat \<Rightarrow> jsval \<Rightarrow> message" where
  "error_response i data =
     (if instanceof_Error data
      then ResPromiseError i (err_message data) (err_name data) (wire_stack (err_stack data))
      else ResPromiseErrorObj i data)"

definition respond :: "nat \<Rightarrow> settlement \<Rightarrow> ChannelServer \<Rightarrow> ChannelServer" where
  "respond i r s =
     (let s1 = (case r of
                  Success data \<Rightarrow> send_s (ResPromiseSuccess i data) s
                | Failure data \<Rightarrow> send_s (error_response i data) s)
      in s1\<lparr>activeRequests_s := (activeRequests_s s1)(i := None)\<rparr>)"

definition progress :: "nat \<Rightarrow> jsval \<Rightarrow> ChannelServer \<Rightarrow> ChannelServer" where
  "progress i data s = send_s (ResPromiseProgress i data) s"

definition onPromise :: "nat \<Rightarrow> string \<Rightarrow> string \<Rightarrow> jsval \<Rightarrow> ChannelServer \<Rightarrow> ChannelServer" where
  "onPromise i channelName name arg s =
     (let h = nextHandle_s s;
          promise = (case channels_s s channelName of
                       None \<Rightarrow> Throws (absent_channel_error ''call'')
                     | Some ch \<Rightarrow> call ch name arg);
          s1 = s\<lparr>nextHandle_s := Suc h\<rparr>;
          s2 = (case promise of
                  Throws err \<Rightarrow> respond i (Failure err) s1
                | Rejected err \<Rightarrow> respond i (Failure err) s1
                | Resolved data \<Rightarrow> respond i (Success data) s1
                | Pending \<Rightarrow> s1\<lparr>pending_s := (pending_s s1)(h \<mapsto> i)\<rparr>)
      in s2\<lparr>activeRequests_s := (activeRequests_s s2)(i \<mapsto> CancelPromise h)\<rparr>)"

definition onEventListen :: "nat \<Rightarrow> string \<Rightarrow> string \<Rightarrow> jsval \<Rightarrow> ChannelServer \<Rightarrow> ChannelServer" where
  "onEventListen i channelName name arg s =
     (let h = nextHandle_s s;
          event = (case channels_s s channelName of
                     None \<Rightarrow> ListenThrows (absent_channel_error ''listen'')
                   | Some ch \<Rightarrow> listen ch name arg)
      in case event of
           ListenThrows err \<Rightarrow> s\<lparr>uncaught_s := uncaught_s s @ [err]\<rparr>
         | Stream \<Rightarrow>
             s\<lparr>nextHandle_s := Suc h,
               subscribed_s := (subscribed_s s)(h \<mapsto> i),
               activeRequests_s := (activeRequests_s s)(i \<mapsto> RemoveListener h)\<rparr>)"

text \<open>
  Invoking a disposer. \<open>requestPromise.cancel()\<close> asks the pending eventual result to
  cancel; how it then settles is reported by the implementation like any other
  settlement. Disposing a subscription detaches the forwarder.
\<close>

definition dispose_disposable :: "disposable \<Rightarrow> ChannelServer \<Rightarrow> ChannelServer" where
  "dispose_disposable d s =
     (let s1 = s\<lparr>disposed_s := disposed_s s @ [d]\<rparr>
      in case d of
           CancelPromise h \<Rightarrow> s1
         | RemoveListener h \<Rightarrow> s1\<lparr>subscribed_s := (subscribed_s s1)(h := None)\<rparr>)"

definition disposeActiveRequest :: "nat \<Rightarrow> ChannelServer \<Rightarrow> ChannelServer" where
  "disposeActiveRequest i s =
     (case activeRequests_s s i of
        None \<Rightarrow> s
      | Some disposable \<Rightarrow>
          (let s1 = dispose_disposable disposable s
           in s1\<lparr>activeRequests_s := (activeRequests_s s1)(i := None)\<rparr>))"

fun onMessage_s :: "message \<Rightarrow> ChannelServer \<Rightarrow> ChannelServer" where
  "onMessage_s (ReqPromise i channelName name arg) s = onPromise i channelName name arg s"
| "onMessage_s (ReqEventListen i channelName name arg) s = onEventListen i channelName name arg s"
| "onMessage_s (ReqPromiseCancel i) s = disposeActiveRequest i s"
| "onMessage_s (ReqEventDispose i) s = disposeActiveRequest i s"
| "onMessage_s _ s = s"

text \<open>
  The channel implementation drives the eventual result with handle \<open>h\<close>: the callbacks
  attached by \<open>onPromise\<close> run if the result is still pending, and a settlement detaches
  them (a result settles once).
\<close>

definition promise_event :: "nat \<Rightarrow> op_event \<Rightarrow> ChannelServer \<Rightarrow> ChannelServer" where
  "promise_event h ev s =
     (case pending_s s h of
        None \<Rightarrow> s
      | Some i \<Rightarrow>
          (case ev of
             Progressed data \<Rightarrow> progress i data s
           | Settled r \<Rightarrow> respond i r (s\<lparr>pending_s := (pending_s s)(h := None)\<rparr>)))"

text \<open>The channel implementation fires the event stream with handle \<open>h\<close>.\<close>

definition event_fired :: "nat \<Rightarrow> jsval \<Rightarrow> ChannelServer \<Rightarrow> ChannelServer" where
  "event_fired h data s =
     (case subscribed_s s h of
        None \<Rightarrow> s
      | Some i \<Rightarrow> send_s (ResEventFire i data) s)"

section \<open>Channel client\<close>

datatype State = Uninitialized | Idle

text \<open>
  \<open>IRequest\<close>: the raw \<open>RequestPromise\<close> message of a call, and whether its
  \<open>flush\<close> closure is set.
\<close>

record request =
  rid :: nat
  rchannelName :: string
  rname :: string
  rarg :: jsval
  flush :: bool

definition raw :: "request \<Rightarrow> message" where
  "raw r = ReqPromise (rid r) (rchannelName r) (rname r) (rarg r)"

text \<open>
  A handler closes over the request id it is stored under: the one installed by
  \<open>doRequest\<close> drives the eventual result of that call, the one installed by
  \<open>requestEvent\<close> fires the emitter of that listen.
\<close>

datatype handler = PromiseHandler | EventHandler

text \<open>
  Modelled from the spec: the eventual result that \<open>requestPromise\<close> returns
  (\<open>TPromise\<close>, whose code is not part of the sources at hand) is produced "exactly
  once, possibly preceded by progress notifications, and supports cancellation". Per call
  the model keeps whether the result has settled (completions, errors, progress and
  cancellation after that are ignored), whether it was made by \<open>bufferRequest\<close>, and
  whether the variable \<open>flushedRequest\<close> of \<open>bufferRequest\<close> is set.
\<close>

record promise =
  settled :: bool
  buffered :: bool
  flushedRequest :: bool

text \<open>
  Modelled from the spec: the \<open>Emitter\<close> of \<open>requestEvent\<close> (its code is not part of
  the sources at hand) "only starts on first subscriber and tears down on last
  subscriber": \<open>onFirstListenerAdd\<close> runs when a listener is added to an emitter that
  has none, \<open>onLastListenerRemove\<close> when the last one is removed, and \<open>fire\<close> delivers
  to the listeners present. The record keeps the number of listeners, the constant
  \<open>request\<close> of the closure, and whether the variable \<open>uninitializedPromise\<close> is set.
\<close>

record emitter =
  listeners :: nat
  uninitializedPromise :: bool
  echannelName :: string
  ename :: string
  earg :: jsval

text \<open>What the caller of \<open>call\<close> or a subscriber of \<open>listen\<close> is told.\<close>

datatype notification =
    Progress jsval
  | Completed jsval
  | Errored jsval
  | Canceled
  | Fired jsval

record ChannelClient =
  state_c :: State
  activeRequests_c :: "nat list"
  bufferedRequests_c :: "request list option"
  handlers_c :: "nat \<rightharpoonup> handler"
  lastRequestId_c :: nat
  protocolListener_c :: bool
  onDidInitialize_c :: "nat list"
  sent_c :: "message list"
  promises_c :: "nat \<rightharpoonup> promise"
  emitters_c :: "nat \<rightharpoonup> emitter"
  observed_c :: "(nat \<times> notification) list"

text \<open>
  \<open>activeRequests_c\<close> holds one disposable per call, named by the call's request id.
  \<open>bufferedRequests_c\<close> is \<open>None\<close> once the field is \<open>null\<close>.
  \<open>onDidInitialize_c\<close> lists, in subscription order, the listens whose continuation
  waits for \<open>onDidInitialize\<close>. \<open>sent_c\<close> is the sequence of \<open>protocol.send\<close> calls
  (\<open>send\<close> swallows whatever the transport throws, so a throwing transport changes
  nothing else). \<open>observed_c\<close> is the sequence of notifications delivered to callers and
  subscribers, each with the request id of the call or listen it belongs to.
\<close>

definition new_ChannelClient :: ChannelClient where
  "new_ChannelClient =
     \<lparr>state_c = Uninitialized, activeRequests_c = [], bufferedRequests_c = Some [],
      handlers_c = Map.empty, lastRequestId_c = 0, protocolListener_c = True,
      onDidInitialize_c = [], sent_c = [], promises_c = Map.empty,
      emitters_c = Map.empty, observed_c = []\<rparr>"

definition send_c :: "message \<Rightarrow> ChannelClient \<Rightarrow> ChannelClient" where
  "send_c m c = c\<lparr>sent_c := sent_c c @ [m]\<rparr>"

text \<open>
  The eventual result of call \<open>i\<close> settles with notification \<open>n\<close>, unless it has
  settled before. The continuation that \<open>requestPromise\<close> attaches with \<open>done\<close> then
  removes the call's disposable from \<open>activeRequests\<close>.
\<close>

definition settle :: "nat \<Rightarrow> notification \<Rightarrow> ChannelClient \<Rightarrow> ChannelClient" where
  "settle i n c =
     (case promises_c c i of
        None \<Rightarrow> c
      | Some p \<Rightarrow>
          if settled p then c
          else c\<lparr>promises_c := (promises_c c)(i \<mapsto> p\<lparr>settled := True\<rparr>),
                 observed_c := observed_c c @ [(i, n)],
                 activeRequests_c := filter (\<lambda>el. el \<noteq> i) (activeRequests_c c)\<rparr>)"

definition notify_progress :: "nat \<Rightarrow> jsval \<Rightarrow> ChannelClient \<Rightarrow> ChannelClient" where
  "notify_progress i data c =
     (case promises_c c i of
        None \<Rightarrow> c
      | Some p \<Rightarrow>
          if settled p then c
          else c\<lparr>observed_c := observed_c c @ [(i, Progress data)]\<rparr>)"

text \<open>\<open>doRequest\<close>: install the handler, then send the raw request.\<close>

definition doRequest :: "request \<Rightarrow> ChannelClient \<Rightarrow> ChannelClient" where
  "doRequest r c = send_c (raw r) (c\<lparr>handlers_c := (handlers_c c)(rid r \<mapsto> PromiseHandler)\<rparr>)"

text \<open>
  \<open>bufferRequest\<close>: push the request and set its \<open>flush\<close>. With the buffer \<open>null\<close> the
  push throws inside the initialiser of the eventual result, which is then rejected with
  that exception.
\<close>

definition null_error :: "string \<Rightarrow> jsval" where
  "null_error prop =
     ErrorV (''Cannot read property '' @ prop @ '' of null'') ''TypeError'' NoStack"

definition bufferRequest :: "request \<Rightarrow> ChannelClient \<Rightarrow> ChannelClient" where
  "bufferRequest r c =
     (case bufferedRequests_c c of
        None \<Rightarrow> c
      | Some b \<Rightarrow> c\<lparr>bufferedRequests_c := Some (b @ [r\<lparr>flush := True\<rparr>])\<rparr>)"

definition requestPromise :: "string \<Rightarrow> string \<Rightarrow> jsval \<Rightarrow> ChannelClient \<Rightarrow> ChannelClient" where
  "requestPromise channelName name arg c =
     (let i = lastRequestId_c c;
          r = \<lparr>rid = i, rchannelName = channelName, rname = name, rarg = arg, flush = False\<rparr>;
          c1 = c\<lparr>lastRequestId_c := Suc i\<rparr>;
          c2 = (if state_c c1 = Uninitialized
                then (bufferRequest r c1)
                       \<lparr>promises_c := (promises_c c1)
                          (i \<mapsto> \<lparr>settled = False, buffered = True, flushedRequest = False\<rparr>)\<rparr>
                else (doRequest r c1)
                       \<lparr>promises_c := (promises_c c1)
                          (i \<mapsto> \<lparr>settled = False, buffered = False, flushedRequest = False\<rparr>)\<rparr>);
          c3 = c2\<lparr>activeRequests_c := activeRequests_c c2 @ [i]\<rparr>
      in if state_c c1 = Uninitialized \<and> bufferedRequests_c c1 = None
         then settle i (Errored (null_error ''push'')) c3
         else c3)"

text \<open>
  The cancel function that \<open>bufferRequest\<close> gives its eventual result. \<open>indexOf\<close>
  finds the request object, which is the one entry of the buffer with this request id;
  \<open>splice(idx, 1)\<close> removes it.
\<close>

fun remove_request :: "nat \<Rightarrow> request list \<Rightarrow> request list" where
  "remove_request i [] = []"
| "remove_request i (r # rs) = (if rid r = i then rs else r # remove_request i rs)"

definition clear_flush :: "nat \<Rightarrow> request list \<Rightarrow> request list" where
  "clear_flush i rs = map (\<lambda>r. if rid r = i then r\<lparr>flush := False\<rparr> else r) rs"

definition cancel_buffered :: "nat \<Rightarrow> promise \<Rightarrow> ChannelClient \<Rightarrow> ChannelClient" where
  "cancel_buffered i p c =
     (let c1 = c\<lparr>bufferedRequests_c := map_option (clear_flush i) (bufferedRequests_c c)\<rparr>
      in if state_c c1 \<noteq> Uninitialized
         then (if flushedRequest p
               then (send_c (ReqPromiseCancel i) c1)
                      \<lparr>promises_c := (promises_c c1)(i \<mapsto> p\<lparr>flushedRequest := False\<rparr>)\<rparr>
               else c1)
         else (case bufferedRequests_c c1 of
                 None \<Rightarrow> c1
               | Some b \<Rightarrow> c1\<lparr>bufferedRequests_c := Some (remove_request i b)\<rparr>))"

text \<open>
  The caller cancels the eventual result of call \<open>i\<close>. A settled result ignores it.
  Otherwise the result's cancel function runs (that of \<open>bufferRequest\<close>, or that of
  \<open>doRequest\<close>, which sends \<open>RequestPromiseCancel\<close>), and the result ends canceled.
\<close>

definition cancel :: "nat \<Rightarrow> ChannelClient \<Rightarrow> ChannelClient" where
  "cancel i c =
     (case promises_c c i of
        None \<Rightarrow> c
      | Some p \<Rightarrow>
          if settled p then c
          else settle i Canceled
                 (if buffered p then cancel_buffered i p c
                  else send_c (ReqPromiseCancel i) c))"

text \<open>The handler that \<open>doRequest\<close> installs for call \<open>i\<close>.\<close>

definition delete_handler :: "nat \<Rightarrow> ChannelClient \<Rightarrow> ChannelClient" where
  "delete_handler i c = c\<lparr>handlers_c := (handlers_c c)(i := None)\<rparr>"

fun promise_handler :: "nat \<Rightarrow> message \<Rightarrow> ChannelClient \<Rightarrow> ChannelClient" where
  "promise_handler i (ResPromiseSuccess _ data) c = settle i (Completed data) (delete_handler i c)"
| "promise_handler i (ResPromiseError _ m n st) c =
     settle i (Errored (ErrorV m n (stack_of_wire st))) (delete_handler i c)"
| "promise_handler i (ResPromiseErrorObj _ data) c = settle i (Errored data) (delete_handler i c)"
| "promise_handler i (ResPromiseProgress _ data) c = notify_progress i data c"
| "promise_handler i _ c = c"

text \<open>The handler that \<open>requestEvent\<close> installs: \<open>emitter.fire(response.data)\<close>.\<close>

definition fire :: "nat \<Rightarrow> jsval \<Rightarrow> ChannelClient \<Rightarrow> ChannelClient" where
  "fire i data c =
     (case emitters_c c i of
        None \<Rightarrow> c
      | Some e \<Rightarrow> c\<lparr>observed_c := observed_c c @ replicate (listeners e) (i, Fired data)\<rparr>)"

text \<open>
  The continuation of \<open>whenInitialized()\<close> in \<open>onFirstListenerAdd\<close> of listen \<open>i\<close>:
  clear \<open>uninitializedPromise\<close> and send the raw \<open>RequestEventListen\<close>.
\<close>

definition listen_message :: "nat \<Rightarrow> emitter \<Rightarrow> message" where
  "listen_message i e = ReqEventListen i (echannelName e) (ename e) (earg e)"

definition send_listen :: "nat \<Rightarrow> ChannelClient \<Rightarrow> ChannelClient" where
  "send_listen i c =
     (case emitters_c c i of
        None \<Rightarrow> c
      | Some e \<Rightarrow>
          send_c (listen_message i e)
            (c\<lparr>emitters_c := (emitters_c c)(i \<mapsto> e\<lparr>uninitializedPromise := False\<rparr>)\<rparr>))"

text \<open>\<open>r.flush && r.flush()\<close> for one buffered request.\<close>

definition flush_request :: "request \<Rightarrow> ChannelClient \<Rightarrow> ChannelClient" where
  "flush_request r c =
     (if flush r
      then (let c1 = doRequest r c
            in c1\<lparr>promises_c :=
                     (case promises_c c1 (rid r) of
                        None \<Rightarrow> promises_c c1
                      | Some p \<Rightarrow> (promises_c c1)(rid r \<mapsto> p\<lparr>flushedRequest := True\<rparr>))\<rparr>)
      else c)"

text \<open>
  The branch of \<open>onMessage\<close> taken for \<open>ResponseInitialize\<close> while \<open>Uninitialized\<close>:
  set the state, fire \<open>onDidInitialize\<close> (the waiting continuations run in subscription
  order), flush every buffered request in buffer order, and null the buffer.
\<close>

definition initialize :: "ChannelClient \<Rightarrow> ChannelClient" where
  "initialize c =
     (let c1 = c\<lparr>state_c := Idle\<rparr>;
          c2 = fold send_listen (onDidInitialize_c c1) (c1\<lparr>onDidInitialize_c := []\<rparr>);
          c3 = fold flush_request (case bufferedRequests_c c2 of None \<Rightarrow> [] | Some b \<Rightarrow> b) c2
      in c3\<lparr>bufferedRequests_c := None\<rparr>)"

definition onMessage_c :: "message \<Rightarrow> ChannelClient \<Rightarrow> ChannelClient" where
  "onMessage_c response c =
     (case type_of response of
        None \<Rightarrow> c
      | Some t \<Rightarrow>
          if \<not> isResponse t then c
          else if state_c c = Uninitialized \<and> t = ResponseInitialize then initialize c
          else (case id_of response of
                  None \<Rightarrow> c
                | Some i \<Rightarrow>
                    (case handlers_c c i of
                       None \<Rightarrow> c
                     | Some PromiseHandler \<Rightarrow> promise_handler i response c
                     | Some EventHandler \<Rightarrow> fire i (data_of response) c)))"

text \<open>
  \<open>requestEvent\<close>: allocate the id, create the emitter and install its handler.
  Nothing is sent.
\<close>

definition requestEvent :: "string \<Rightarrow> string \<Rightarrow> jsval \<Rightarrow> ChannelClient \<Rightarrow> ChannelClient" where
  "requestEvent channelName name arg c =
     (let i = lastRequestId_c c
      in c\<lparr>lastRequestId_c := Suc i,
           emitters_c := (emitters_c c)
             (i \<mapsto> \<lparr>listeners = 0, uninitializedPromise = False,
                     echannelName = channelName, ename = name, earg = arg\<rparr>),
           handlers_c := (handlers_c c)(i \<mapsto> EventHandler)\<rparr>)"

text \<open>
  \<open>onFirstListenerAdd\<close>. While \<open>Idle\<close>, \<open>whenInitialized()\<close> is already resolved, so
  the continuation runs (clearing the variable and sending) before \<open>then\<close> returns, and
  the assignment of the result of \<open>then\<close> to \<open>uninitializedPromise\<close> comes last.
  While \<open>Uninitialized\<close> the continuation is queued on \<open>onDidInitialize\<close>.
\<close>

definition onFirstListenerAdd :: "nat \<Rightarrow> ChannelClient \<Rightarrow> ChannelClient" where
  "onFirstListenerAdd i c =
     (let c1 = (if state_c c = Idle then send_listen i c
                else c\<lparr>onDidInitialize_c := onDidInitialize_c c @ [i]\<rparr>)
      in case emitters_c c1 i of
           None \<Rightarrow> c1
         | Some e \<Rightarrow> c1\<lparr>emitters_c := (emitters_c c1)(i \<mapsto> e\<lparr>uninitializedPromise := True\<rparr>)\<rparr>)"

text \<open>
  \<open>onLastListenerRemove\<close>: with \<open>uninitializedPromise\<close> set, cancel it (a queued
  continuation is dropped) and clear the variable; otherwise send
  \<open>RequestEventDispose\<close>.
\<close>

definition onLastListenerRemove :: "nat \<Rightarrow> ChannelClient \<Rightarrow> ChannelClient" where
  "onLastListenerRemove i c =
     (case emitters_c c i of
        None \<Rightarrow> c
      | Some e \<Rightarrow>
          if uninitializedPromise e
          then c\<lparr>onDidInitialize_c := filter (\<lambda>j. j \<noteq> i) (onDidInitialize_c c),
                 emitters_c := (emitters_c c)(i \<mapsto> e\<lparr>uninitializedPromise := False\<rparr>)\<rparr>
          else send_c (ReqEventDispose i) c)"

text \<open>A subscriber is added to, or removed from, the event stream of listen \<open>i\<close>.\<close>

definition set_listeners :: "nat \<Rightarrow> nat \<Rightarrow> ChannelClient \<Rightarrow> ChannelClient" where
  "set_listeners i n c =
     (case emitters_c c i of
        None \<Rightarrow> c
      | Some e \<Rightarrow> c\<lparr>emitters_c := (emitters_c c)(i \<mapsto> e\<lparr>listeners := n\<rparr>)\<rparr>)"

definition subscribe :: "nat \<Rightarrow> ChannelClient \<Rightarrow> ChannelClient" where
  "subscribe i c =
     (case emitters_c c i of
        None \<Rightarrow> c
      | Some e \<Rightarrow>
          set_listeners i (Suc (listeners e))
            (if listeners e = 0 then onFirstListenerAdd i c else c))"

definition unsubscribe :: "nat \<Rightarrow> ChannelClient \<Rightarrow> ChannelClient" where
  "unsubscribe i c =
     (case emitters_c c i of
        None \<Rightarrow> c
      | Some e \<Rightarrow>
          if listeners e = 0 then c
          else (let c1 = set_listeners i (listeners e - 1) c
                in if listeners e = 1 then onLastListenerRemove i c1 else c1))"

text \<open>
  \<open>dispose\<close>: stop listening to the transport and dispose every disposable of
  \<open>activeRequests\<close>, each of which cancels its call.
\<close>

definition dispose_c :: "ChannelClient \<Rightarrow> ChannelClient" where
  "dispose_c c =
     (let c1 = c\<lparr>protocolListener_c := False\<rparr>;
          c2 = fold cancel (activeRequests_c c1) c1
      in c2\<lparr>activeRequests_c := []\<rparr>)"

text \<open>
  Everything that can happen to a client: its owner calls, cancels a call, listens,
  adds or removes a subscriber, or disposes it; the transport delivers a message (to
  \<open>onMessage\<close>, while the client still listens).
\<close>

datatype client_event =
    Call string string jsval
  | Cancel nat
  | Listen string string jsval
  | Subscribe nat
  | Unsubscribe nat
  | Receive message
  | Dispose

fun step_c :: "client_event \<Rightarrow> ChannelClient \<Rightarrow> ChannelClient" where
  "step_c (Call channelName name arg) c = requestPromise channelName name arg c"
| "step_c (Cancel i) c = cancel i c"
| "step_c (Listen channelName name arg) c = requestEvent channelName name arg c"
| "step_c (Subscribe i) c = subscribe i c"
| "step_c (Unsubscribe i) c = unsubscribe i c"
| "step_c (Receive m) c = (if protocolListener_c c then onMessage_c m c else c)"
| "step_c Dispose c = dispose_c c"

definition run_c :: "client_event list \<Rightarrow> ChannelClient \<Rightarrow> ChannelClient" where
  "run_c evs c = fold step_c evs c"

section \<open>IPC server\<close>

record router =
  routeCall :: "string \<Rightarrow> jsval \<Rightarrow> string option"
  routeEvent :: "string \<Rightarrow> jsval \<Rightarrow> string option"

text \<open>
  A transport that has connected either still waits for its first message, or has the
  \<open>ChannelServer\<close> and \<open>ChannelClient\<close> that were created for it when the first
  message announced the client id.
\<close>

datatype connection = Awaiting | Established string ChannelServer ChannelClient

text \<open>An operation of a routed channel: channel name, command or event, argument.\<close>

datatype routed = RoutedCall string string jsval | RoutedListen string string jsval

record IPCServer =
  channels_i :: "(string \<times> channel) list"
  channelClients_i :: "string \<rightharpoonup> nat"
  connections_i :: "nat \<rightharpoonup> connection"
  onClientAdded_i :: "(string \<times> routed) list"

text \<open>
  \<open>channels_i\<close> keeps the registry with its keys in insertion order, as
  \<open>Object.keys\<close> enumerates them. Transports are named by numbers;
  \<open>channelClients_i\<close> gives, for a client id, the transport whose \<open>ChannelClient\<close> is
  stored under it. \<open>onClientAdded_i\<close> lists the routed operations that wait in
  \<open>getClient\<close> for a client id to be added.
\<close>

definition new_IPCServer :: IPCServer where
  "new_IPCServer =
     \<lparr>channels_i = [], channelClients_i = Map.empty, connections_i = Map.empty,
      onClientAdded_i = []\<rparr>"

definition registerChannel_i :: "string \<Rightarrow> channel \<Rightarrow> IPCServer \<Rightarrow> IPCServer" where
  "registerChannel_i channelName ch s =
     s\<lparr>channels_i := AList.update channelName ch (channels_i s)\<rparr>"

text \<open>\<open>onDidClientConnect\<close> fires for transport \<open>p\<close>.\<close>

definition client_connected :: "nat \<Rightarrow> IPCServer \<Rightarrow> IPCServer" where
  "client_connected p s = s\<lparr>connections_i := (connections_i s)(p \<mapsto> Awaiting)\<rparr>"

text \<open>
  \<open>client.getChannel(channelName)\<close> followed by \<open>call\<close> or \<open>listen\<close> on the proxy.
  Subscriptions to the relayed event stream are not part of this model.
\<close>

fun forward :: "routed \<Rightarrow> ChannelClient \<Rightarrow> ChannelClient" where
  "forward (RoutedCall channelName command arg) c = requestPromise channelName command arg c"
| "forward (RoutedListen channelName event arg) c = requestEvent channelName event arg c"

text \<open>
  The listener on the first message of transport \<open>p\<close>: create the pair, register
  every channel of the registry on the new server, store the client under the id and
  fire \<open>onClientAdded\<close>, which releases the operations waiting for that id.
\<close>

definition register_all :: "(string \<times> channel) list \<Rightarrow> ChannelServer \<Rightarrow> ChannelServer" where
  "register_all registry channelServer =
     fold (\<lambda>name srv. case map_of registry name of
                        None \<Rightarrow> srv
                      | Some ch \<Rightarrow> registerChannel name ch srv)
          (map fst registry) channelServer"

definition first_message :: "nat \<Rightarrow> string \<Rightarrow> IPCServer \<Rightarrow> IPCServer" where
  "first_message p i s =
     (let channelServer = register_all (channels_i s) new_ChannelServer;
          waiting = map snd (filter (\<lambda>(j, _). j = i) (onClientAdded_i s));
          channelClient = fold forward waiting new_ChannelClient
      in s\<lparr>channelClients_i := (channelClients_i s)(i \<mapsto> p),
           connections_i := (connections_i s)(p \<mapsto> Established i channelServer channelClient),
           onClientAdded_i := filter (\<lambda>(j, _). j \<noteq> i) (onClientAdded_i s)\<rparr>)"

text \<open>
  The first message is used as the client id: a property key, so a message object reads
  as the string that every plain object converts to.
\<close>

fun key_of :: "message \<Rightarrow> string" where
  "key_of (Hello i) = i"
| "key_of _ = ''[object Object]''"

text \<open>
  The transport \<open>p\<close> delivers a message. Once the pair exists, both the server and the
  client of the connection listen to the transport, the server first.
\<close>

definition deliver :: "nat \<Rightarrow> message \<Rightarrow> IPCServer \<Rightarrow> IPCServer" where
  "deliver p m s =
     (case connections_i s p of
        None \<Rightarrow> s
      | Some Awaiting \<Rightarrow> first_message p (key_of m) s
      | Some (Established i channelServer channelClient) \<Rightarrow>
          s\<lparr>connections_i := (connections_i s)
               (p \<mapsto> Established i (onMessage_s m channelServer)
                                     (step_c (Receive m) channelClient))\<rparr>)"

text \<open>
  The \<open>call\<close> and \<open>listen\<close> of the routed channel returned by
  \<open>getChannel(channelName, router)\<close>. \<open>!id\<close> holds for an absent id and for the
  empty string. The result is either rejected on the spot, or the operation is forwarded:
  to the client stored under the id, or, when there is none yet, queued in \<open>getClient\<close>.
\<close>

datatype routed_result = RejectedNow jsval | Forwarded

definition no_id_error :: jsval where
  "no_id_error = ErrorV ''Client id should be provided'' ''Error'' NoStack"

definition route :: "string option \<Rightarrow> routed \<Rightarrow> IPCServer \<Rightarrow> routed_result \<times> IPCServer" where
  "route i operation s =
     (case i of
        None \<Rightarrow> (RejectedNow no_id_error, s)
      | Some clientId \<Rightarrow>
          if clientId = [] then (RejectedNow no_id_error, s)
          else (case channelClients_i s clientId of
                  None \<Rightarrow>
                    (Forwarded,
                     s\<lparr>onClientAdded_i := onClientAdded_i s @ [(clientId, operation)]\<rparr>)
                | Some p \<Rightarrow>
                    (case connections_i s p of
                       Some (Established j channelServer channelClient) \<Rightarrow>
                         (Forwarded,
                          s\<lparr>connections_i := (connections_i s)
                               (p \<mapsto> Established j channelServer
                                      (forward operation channelClient))\<rparr>)
                     | _ \<Rightarrow> (Forwarded, s))))"

definition getChannel_call ::
  "string \<Rightarrow> router \<Rightarrow> string \<Rightarrow> jsval \<Rightarrow> IPCServer \<Rightarrow> routed_result \<times> IPCServer" where
  "getChannel_call channelName r command arg s =
     route (routeCall r command arg) (RoutedCall channelName command arg) s"

definition getChannel_listen ::
  "string \<Rightarrow> router \<Rightarrow> string \<Rightarrow> jsval \<Rightarrow> IPCServer \<Rightarrow> routed_result \<times> IPCServer" where
  "getChannel_listen channelName r event arg s =
     route (routeEvent r event arg) (RoutedListen channelName event arg) s"

text \<open>Every message sent on any transport of the server, per transport.\<close>

definition sent_on :: "IPCServer \<Rightarrow> nat \<Rightarrow> message list \<times> message list" where
  "sent_on s p =
     (case connections_i s p of
        Some (Established i channelServer channelClient) \<Rightarrow>
          (sent_s channelServer, sent_c channelClient)
      | _ \<Rightarrow> ([], []))"

text \<open>
  Everything that can happen to an IPC server: a channel is registered, a transport
  connects, a transport delivers a message, or a routed channel is used.
\<close>

datatype ipc_event =
    RegisterChannel string channel
  | Connected nat
  | Delivered nat message
  | RoutedCallOn string router string jsval
  | RoutedListenOn string router string jsval

fun step_i :: "ipc_event \<Rightarrow> IPCServer \<Rightarrow> IPCServer" where
  "step_i (RegisterChannel channelName ch) s = registerChannel_i channelName ch s"
| "step_i (Connected p) s = client_connected p s"
| "step_i (Delivered p m) s = deliver p m s"
| "step_i (RoutedCallOn channelName r command arg) s =
     snd (getChannel_call channelName r command arg s)"
| "step_i (RoutedListenOn channelName r event arg) s =
     snd (getChannel_listen channelName r event arg s)"

definition run_i :: "ipc_event list \<Rightarrow> IPCServer \<Rightarrow> IPCServer" where
  "run_i evs s = fold step_i evs s"

section \<open>Properties of the channel server\<close>

lemma onMessage_s_channels: "channels_s (onMessage_s m s) = channels_s s"
  by (cases m)
     (auto simp: onPromise_def onEventListen_def disposeActiveRequest_def
        dispose_disposable_def respond_def send_s_def Let_def
        split: option.splits call_result.splits listen_result.splits disposable.splits)

text \<open>
  C6. A \<open>RequestPromiseCancel\<close> or \<open>RequestEventDispose\<close> whose id has no
  registered disposer is a silent no-op: the server is exactly as it was, so no disposer
  was invoked (\<open>disposed_s\<close>), nothing was raised (\<open>uncaught_s\<close>) and nothing was
  sent.
\<close>

theorem stale_cancel_is_noop:
  assumes "activeRequests_s s i = None"
  shows "onMessage_s (ReqPromiseCancel i) s = s \<and> onMessage_s (ReqEventDispose i) s = s"
  using assms by (simp add: disposeActiveRequest_def)

theorem stale_cancel_is_noop_witness:
  "activeRequests_s new_ChannelServer 3 = None \<and>
   onMessage_s (ReqPromiseCancel 3) new_ChannelServer = new_ChannelServer \<and>
   onMessage_s (ReqEventDispose 3) new_ChannelServer = new_ChannelServer"
  using stale_cancel_is_noop [of new_ChannelServer 3]
  by (simp add: new_ChannelServer_def)

text \<open>
  C7. When the invocation of \<open>channel.call\<close> for an inbound \<open>RequestPromise\<close>
  throws \<open>err\<close> (the channel's \<open>call\<close> throws it, or the channel is not registered
  and the read of \<open>call\<close> raises the runtime's error), the server sends exactly one
  message in response, the error response for \<open>err\<close>, which is a
  \<open>ResponsePromiseError\<close> or a \<open>ResponsePromiseErrorObj\<close> with the request's id;
  no callback stays attached that could send another, and nothing escapes
  \<open>onMessage\<close>.
\<close>

theorem synchronous_throw_is_answered:
  assumes "(channels_s s channelName = None \<and> err = absent_channel_error ''call'') \<or>
           (\<exists>ch. channels_s s channelName = Some ch \<and> call ch name arg = Throws err)"
  shows "sent_s (onMessage_s (ReqPromise i channelName name arg) s) =
           sent_s s @ [error_response i err] \<and>
         type_of (error_response i err) \<in>
           {Some ResponsePromiseError, Some ResponsePromiseErrorObj} \<and>
         id_of (error_response i err) = Some i \<and>
         pending_s (onMessage_s (ReqPromise i channelName name arg) s) = pending_s s \<and>
         uncaught_s (onMessage_s (ReqPromise i channelName name arg) s) = uncaught_s s"
  using assms
  by (auto simp: onPromise_def respond_def send_s_def Let_def error_response_def)

theorem synchronous_throw_is_answered_witness:
  "channels_s new_ChannelServer ''files'' = None \<and>
   sent_s (onMessage_s (ReqPromise 4 ''files'' ''stat'' Null) new_ChannelServer) =
     [ResInitialize,
      ResPromiseError 4 ''Cannot read property call of undefined'' ''TypeError'' None]"
  using synchronous_throw_is_answered
          [of new_ChannelServer "''files''" "absent_channel_error ''call''" "''stat''" Null 4]
  by (simp add: new_ChannelServer_def absent_channel_error_def error_response_def
        wire_stack_def)

section \<open>Properties of the channel client\<close>

lemmas client_defs =
  run_c_def new_ChannelClient_def requestPromise_def bufferRequest_def doRequest_def
  send_c_def settle_def notify_progress_def cancel_def cancel_buffered_def clear_flush_def
  delete_handler_def fire_def listen_message_def send_listen_def flush_request_def
  initialize_def onMessage_c_def requestEvent_def onFirstListenerAdd_def
  onLastListenerRemove_def set_listeners_def subscribe_def unsubscribe_def dispose_c_def
  raw_def isResponse_def Let_def

lemma sent_since_append [simp]: "sent_since xs (xs @ ys) = ys"
  by (simp add: sent_since_def)

subsection \<open>What initialization sends\<close>

text \<open>The \<open>RequestEventListen\<close> message of listen \<open>j\<close>, if there is such a listen.\<close>

definition listen_of :: "ChannelClient \<Rightarrow> nat \<Rightarrow> message option" where
  "listen_of c j = map_option (listen_message j) (emitters_c c j)"

lemma listen_of_send_listen: "listen_of (send_listen k c) j = listen_of c j"
  by (auto simp: listen_of_def send_listen_def send_c_def listen_message_def
        split: option.splits)

lemma sent_send_listen:
  "sent_c (send_listen k c) =
     sent_c c @ (case listen_of c k of None \<Rightarrow> [] | Some m \<Rightarrow> [m])"
  by (auto simp: listen_of_def send_listen_def send_c_def split: option.splits)

lemma fold_send_listen_sent:
  "sent_c (fold send_listen q c) = sent_c c @ List.map_filter (listen_of c) q"
proof (induction q arbitrary: c)
  case Nil
  then show ?case by simp
next
  case (Cons k q)
  have "(\<lambda>j. listen_of (send_listen k c) j) = listen_of c"
    by (simp add: listen_of_send_listen fun_eq_iff)
  then show ?case
    by (simp add: Cons.IH sent_send_listen split: option.splits)
qed

lemma fold_send_listen_other:
  "state_c (fold send_listen q c) = state_c c"
  "bufferedRequests_c (fold send_listen q c) = bufferedRequests_c c"
  "promises_c (fold send_listen q c) = promises_c c"
  "handlers_c (fold send_listen q c) = handlers_c c"
  "lastRequestId_c (fold send_listen q c) = lastRequestId_c c"
  "observed_c (fold send_listen q c) = observed_c c"
  "activeRequests_c (fold send_listen q c) = activeRequests_c c"
  "protocolListener_c (fold send_listen q c) = protocolListener_c c"
  "onDidInitialize_c (fold send_listen q c) = onDidInitialize_c c"
  by (induction q arbitrary: c; simp add: send_listen_def send_c_def split: option.splits)+

lemma sent_flush_request:
  "sent_c (flush_request r c) = sent_c c @ (if flush r then [raw r] else [])"
  by (simp add: flush_request_def doRequest_def send_c_def Let_def)

lemma fold_flush_sent:
  "sent_c (fold flush_request b c) = sent_c c @ map raw (filter flush b)"
  by (induction b arbitrary: c) (simp_all add: sent_flush_request)

lemma fold_flush_other:
  "state_c (fold flush_request b c) = state_c c"
  "bufferedRequests_c (fold flush_request b c) = bufferedRequests_c c"
  "lastRequestId_c (fold flush_request b c) = lastRequestId_c c"
  "observed_c (fold flush_request b c) = observed_c c"
  "activeRequests_c (fold flush_request b c) = activeRequests_c c"
  "protocolListener_c (fold flush_request b c) = protocolListener_c c"
  "onDidInitialize_c (fold flush_request b c) = onDidInitialize_c c"
  "emitters_c (fold flush_request b c) = emitters_c c"
  by (induction b arbitrary: c; simp add: flush_request_def doRequest_def send_c_def Let_def)+

lemma initialize_sent:
  "sent_c (initialize c) =
     sent_c c @ List.map_filter (listen_of c) (onDidInitialize_c c) @
     map raw (filter flush (case bufferedRequests_c c of None \<Rightarrow> [] | Some b \<Rightarrow> b))"
  by (simp add: initialize_def Let_def fold_flush_sent fold_send_listen_sent
        fold_send_listen_other listen_of_def [abs_def])

lemma initialize_other:
  "state_c (initialize c) = Idle"
  "bufferedRequests_c (initialize c) = None"
  "lastRequestId_c (initialize c) = lastRequestId_c c"
  "observed_c (initialize c) = observed_c c"
  "protocolListener_c (initialize c) = protocolListener_c c"
  "onDidInitialize_c (initialize c) = []"
  by (simp_all add: initialize_def Let_def fold_flush_other fold_send_listen_other)

subsection \<open>A call and its responses\<close>

text \<open>
  Call \<open>i\<close> has been sent and awaits its response: the handler of \<open>doRequest\<close> is
  installed and the eventual result has not settled.
\<close>

definition awaiting :: "ChannelClient \<Rightarrow> nat \<Rightarrow> bool" where
  "awaiting c i =
     (handlers_c c i = Some PromiseHandler \<and>
      (case promises_c c i of None \<Rightarrow> False | Some p \<Rightarrow> \<not> settled p))"

lemma awaiting_observed: "awaiting (c\<lparr>observed_c := x\<rparr>) i = awaiting c i"
  by (simp add: awaiting_def)

lemma server_progress:
  "pending_s s h = Some i \<Longrightarrow>
   fold (promise_event h) (map Progressed ps) s =
     s\<lparr>sent_s := sent_s s @ map (ResPromiseProgress i) ps\<rparr>"
proof (induction ps arbitrary: s)
  case Nil
  then show ?case by simp
next
  case (Cons d ps)
  have "promise_event h (Progressed d) s = s\<lparr>sent_s := sent_s s @ [ResPromiseProgress i d]\<rparr>"
    using Cons.prems by (simp add: promise_event_def progress_def send_s_def)
  moreover have "pending_s (s\<lparr>sent_s := sent_s s @ [ResPromiseProgress i d]\<rparr>) h = Some i"
    using Cons.prems by simp
  ultimately show ?case
    using Cons.IH by simp
qed

lemma server_settle:
  "pending_s s h = Some i \<Longrightarrow>
   sent_s (promise_event h (Settled r) s) =
     sent_s s @ [case r of Success d \<Rightarrow> ResPromiseSuccess i d
                         | Failure v \<Rightarrow> error_response i v] \<and>
   pending_s (promise_event h (Settled r) s) h = None"
  by (auto simp: promise_event_def respond_def send_s_def Let_def split: settlement.splits)

lemma server_settled_ignores: "pending_s s h = None \<Longrightarrow> promise_event h ev s = s"
  by (simp add: promise_event_def)

lemma client_progress_one:
  "awaiting c i \<Longrightarrow>
   onMessage_c (ResPromiseProgress i d) c = c\<lparr>observed_c := observed_c c @ [(i, Progress d)]\<rparr>"
  by (auto simp: awaiting_def onMessage_c_def isResponse_def notify_progress_def
        split: option.splits)

lemma client_progress:
  "awaiting c i \<Longrightarrow>
   fold onMessage_c (map (ResPromiseProgress i) ps) c =
     c\<lparr>observed_c := observed_c c @ map (\<lambda>d. (i, Progress d)) ps\<rparr>"
proof (induction ps arbitrary: c)
  case Nil
  then show ?case by simp
next
  case (Cons d ps)
  show ?case
    using Cons.prems by (simp add: client_progress_one Cons.IH awaiting_observed)
qed

lemma client_success:
  "awaiting c i \<Longrightarrow>
   observed_c (onMessage_c (ResPromiseSuccess i d) c) = observed_c c @ [(i, Completed d)] \<and>
   handlers_c (onMessage_c (ResPromiseSuccess i d) c) i = None"
  by (auto simp: awaiting_def onMessage_c_def isResponse_def settle_def delete_handler_def
        split: option.splits)

lemma client_failure:
  "awaiting c i \<Longrightarrow>
   observed_c (onMessage_c (error_response i v) c) =
     observed_c c @
       [(i, Errored (if instanceof_Error v
                     then ErrorV (err_message v) (err_name v)
                            (stack_of_wire (wire_stack (err_stack v)))
                     else v))] \<and>
   handlers_c (onMessage_c (error_response i v) c) i = None"
  by (auto simp: awaiting_def onMessage_c_def isResponse_def settle_def delete_handler_def
        error_response_def split: option.splits)

lemma client_no_handler:
  "handlers_c c i = None \<Longrightarrow> onMessage_c (ResPromiseProgress i d) c = c"
  by (auto simp: onMessage_c_def isResponse_def)

text \<open>
  C2. A call awaits its response and its remote implementation fails with \<open>v\<close>: the
  channel's \<open>call\<close> throws \<open>v\<close> or returns a result already rejected with \<open>v\<close>
  when the request arrives, or the pending result of the request is rejected with \<open>v\<close>
  later. If \<open>v\<close> is an \<open>Error\<close>, the server sends one \<open>ResponsePromiseError\<close>
  with its message and name and its stack as plain data, and the caller's result is
  rejected with an \<open>Error\<close> that has the same message (and name). If \<open>v\<close> is not an
  \<open>Error\<close>, the server sends one \<open>ResponsePromiseErrorObj\<close> with \<open>v\<close>, and the
  caller's result is rejected with \<open>v\<close> itself.
\<close>

theorem remote_failure_rejects_caller:
  assumes "awaiting c i"
    and "(\<exists>ch. channels_s s channelName = Some ch \<and>
               (call ch name arg = Throws v \<or> call ch name arg = Rejected v) \<and>
               s' = onMessage_s (ReqPromise i channelName name arg) s) \<or>
         (pending_s s h = Some i \<and> s' = promise_event h (Settled (Failure v)) s)"
  shows "(\<forall>m n st. v = ErrorV m n st \<longrightarrow>
            sent_since (sent_s s) (sent_s s') = [ResPromiseError i m n (wire_stack st)] \<and>
            observed_c (fold onMessage_c (sent_since (sent_s s) (sent_s s')) c) =
              observed_c c @ [(i, Errored (ErrorV m n (stack_of_wire (wire_stack st))))]) \<and>
         (\<not> instanceof_Error v \<longrightarrow>
            sent_since (sent_s s) (sent_s s') = [ResPromiseErrorObj i v] \<and>
            observed_c (fold onMessage_c (sent_since (sent_s s) (sent_s s')) c) =
              observed_c c @ [(i, Errored v)])"
proof -
  have sent: "sent_s s' = sent_s s @ [error_response i v]"
    using assms(2) server_settle [of s h i "Failure v"]
    by (auto simp: onPromise_def respond_def send_s_def Let_def)
  have "sent_since (sent_s s) (sent_s s') = [error_response i v]"
    unfolding sent by simp
  then show ?thesis
    using client_failure [OF assms(1), of v]
    by (auto simp: error_response_def)
qed

theorem remote_failure_rejects_caller_witness:
  "awaiting (run_c [Receive ResInitialize, Call ''files'' ''stat'' Null] new_ChannelClient) 0 \<and>
   sent_s (onMessage_s (ReqPromise 0 ''files'' ''stat'' Null)
             (registerChannel ''files''
                \<lparr>call = (\<lambda>c a. Rejected (ErrorV ''boom'' ''Error''
                                            (StackString [CHR ''E'', CHR 0x0A, CHR ''a'']))),
                 listen = (\<lambda>e a. Stream)\<rparr>
                new_ChannelServer)) =
     [ResInitialize, ResPromiseError 0 ''boom'' ''Error'' (Some [''E'', ''a''])] \<and>
   observed_c
     (onMessage_c (ResPromiseError 0 ''boom'' ''Error'' (Some [''E'', ''a'']))
        (run_c [Receive ResInitialize, Call ''files'' ''stat'' Null] new_ChannelClient)) =
     [(0, Errored (ErrorV ''boom'' ''Error'' (StackLines [''E'', ''a''])))]"
proof -
  let ?c = "run_c [Receive ResInitialize, Call ''files'' ''stat'' Null] new_ChannelClient"
  let ?ch = "\<lparr>call = (\<lambda>c a. Rejected (ErrorV ''boom'' ''Error''
                                       (StackString [CHR ''E'', CHR 0x0A, CHR ''a'']))),
              listen = (\<lambda>e a. Stream)\<rparr>"
  let ?s = "registerChannel ''files'' ?ch new_ChannelServer"
  have a: "awaiting ?c 0"
    by (simp add: awaiting_def client_defs)
  have b: "channels_s ?s ''files'' = Some ?ch"
    by (simp add: registerChannel_def)
  have s: "sent_s ?s = [ResInitialize]"
    by (simp add: registerChannel_def new_ChannelServer_def)
  have w: "wire_stack (StackString [CHR ''E'', CHR 0x0A, CHR ''a'']) = Some [''E'', ''a'']"
    by (simp add: wire_stack_def)
  from remote_failure_rejects_caller
         [where c = ?c and i = 0 and s = ?s and channelName = "''files''" and name = "''stat''"
            and arg = Null and v = "ErrorV ''boom'' ''Error''
                                     (StackString [CHR ''E'', CHR 0x0A, CHR ''a''])"
            and s' = "onMessage_s (ReqPromise 0 ''files'' ''stat'' Null) ?s" and h = 0]
  show ?thesis
    using a b by (simp add: s w sent_since_def stack_of_wire_def client_defs
                    onPromise_def respond_def send_s_def error_response_def)
qed

text \<open>
  C3. A call awaits its response while the remote operation reports the progress values
  \<open>ps\<close>, in this order, and then settles with \<open>r\<close>. The server sends one
  \<open>ResponsePromiseProgress\<close> per value, in production order, and then the one terminal
  response; delivered in send order, they reach the caller's observer as the progress
  notifications in production order, followed by the one notification that settles the
  result. After it the server sends nothing more for the operation, and a progress
  message that still arrived would not be delivered.
\<close>

theorem progress_precedes_settlement:
  assumes "awaiting c i"
    and "pending_s s h = Some i"
  shows "let s' = fold (promise_event h) (map Progressed ps @ [Settled r]) s;
             msgs = sent_since (sent_s s) (sent_s s');
             c' = fold onMessage_c msgs c
         in msgs = map (ResPromiseProgress i) ps @
                     [case r of Success d \<Rightarrow> ResPromiseSuccess i d
                              | Failure v \<Rightarrow> error_response i v] \<and>
            observed_c c' =
              observed_c c @ map (\<lambda>d. (i, Progress d)) ps @
                [(i, case r of
                       Success d \<Rightarrow> Completed d
                     | Failure v \<Rightarrow>
                         Errored (if instanceof_Error v
                                  then ErrorV (err_message v) (err_name v)
                                         (stack_of_wire (wire_stack (err_stack v)))
                                  else v))] \<and>
            (\<forall>ev. promise_event h ev s' = s') \<and>
            (\<forall>d. onMessage_c (ResPromiseProgress i d) c' = c')"
proof -
  define s1 where "s1 = s\<lparr>sent_s := sent_s s @ map (ResPromiseProgress i) ps\<rparr>"
  define c1 where "c1 = c\<lparr>observed_c := observed_c c @ map (\<lambda>d. (i, Progress d)) ps\<rparr>"
  define t where
    "t = (case r of Success d \<Rightarrow> ResPromiseSuccess i d | Failure v \<Rightarrow> error_response i v)"
  have p1: "pending_s s1 h = Some i"
    using assms(2) by (simp add: s1_def)
  have a1: "awaiting c1 i"
    using assms(1) by (simp add: c1_def awaiting_observed)
  have s': "fold (promise_event h) (map Progressed ps @ [Settled r]) s =
              promise_event h (Settled r) s1"
    using server_progress [OF assms(2), of ps] by (simp add: s1_def)
  have sent': "sent_s (promise_event h (Settled r) s1) =
                 sent_s s @ (map (ResPromiseProgress i) ps @ [t])"
    using server_settle [OF p1, of r] by (simp add: s1_def t_def)
  have c': "fold onMessage_c (map (ResPromiseProgress i) ps @ [t]) c = onMessage_c t c1"
    using client_progress [OF assms(1), of ps] by (simp add: c1_def)
  have obs: "observed_c (onMessage_c t c1) =
               observed_c c1 @
                 [(i, case r of
                        Success d \<Rightarrow> Completed d
                      | Failure v \<Rightarrow>
                          Errored (if instanceof_Error v
                                   then ErrorV (err_message v) (err_name v)
                                          (stack_of_wire (wire_stack (err_stack v)))
                                   else v))]"
    and nh: "handlers_c (onMessage_c t c1) i = None"
    using client_success [OF a1] client_failure [OF a1]
    by (auto simp: t_def split: settlement.splits)
  have fin: "pending_s (promise_event h (Settled r) s1) h = None"
    using server_settle [OF p1, of r] by simp
  show ?thesis
    unfolding Let_def s' sent' sent_since_append c'
    using obs nh fin
    by (simp add: c1_def t_def server_settled_ignores client_no_handler)
qed

theorem progress_precedes_settlement_witness:
  "awaiting (run_c [Receive ResInitialize, Call ''files'' ''read'' Null] new_ChannelClient) 0 \<and>
   pending_s (onMessage_s (ReqPromise 0 ''files'' ''read'' Null)
                (registerChannel ''files''
                   \<lparr>call = (\<lambda>c a. Pending), listen = (\<lambda>e a. Stream)\<rparr> new_ChannelServer)) 0 =
     Some 0 \<and>
   observed_c
     (fold onMessage_c
        [ResPromiseProgress 0 (Num 1), ResPromiseProgress 0 (Num 2),
         ResPromiseSuccess 0 (Str ''done'')]
        (run_c [Receive ResInitialize, Call ''files'' ''read'' Null] new_ChannelClient)) =
     [(0, Progress (Num 1)), (0, Progress (Num 2)), (0, Completed (Str ''done''))]"
proof -
  let ?c = "run_c [Receive ResInitialize, Call ''files'' ''read'' Null] new_ChannelClient"
  let ?s = "onMessage_s (ReqPromise 0 ''files'' ''read'' Null)
              (registerChannel ''files''
                 \<lparr>call = (\<lambda>c a. Pending), listen = (\<lambda>e a. Stream)\<rparr> new_ChannelServer)"
  have a: "awaiting ?c 0"
    by (simp add: awaiting_def client_defs)
  have b: "pending_s ?s 0 = Some 0"
    by (simp add: onPromise_def registerChannel_def new_ChannelServer_def)
  have o: "observed_c ?c = []"
    by (simp add: client_defs)
  define msgs where
    "msgs = sent_since (sent_s ?s)
              (sent_s (fold (promise_event 0)
                         (map Progressed [Num 1, Num 2] @ [Settled (Success (Str ''done''))])
                         ?s))"
  define c' where "c' = fold onMessage_c msgs ?c"
  note t = progress_precedes_settlement
             [OF a b, where ps = "[Num 1, Num 2]" and r = "Success (Str ''done'')",
              unfolded Let_def, folded msgs_def, folded c'_def]
  have m: "msgs = [ResPromiseProgress 0 (Num 1), ResPromiseProgress 0 (Num 2),
                   ResPromiseSuccess 0 (Str ''done'')]"
    using t by simp
  have "observed_c c' =
          [(0, Progress (Num 1)), (0, Progress (Num 2)), (0, Completed (Str ''done''))]"
    using t by (simp add: o)
  then show ?thesis
    using a b unfolding c'_def m by simp
qed

text \<open>
  C9, as the code has it. When the last observer of the event stream of listen \<open>i\<close>
  unsubscribes and an observer subscribes again, no request id is allocated: the
  \<open>RequestEventListen\<close> that is sent again (at once when the client is \<open>Idle\<close>, on
  initialization when it is still \<open>Uninitialized\<close>) carries \<open>i\<close>, the id the stream
  was given by \<open>requestEvent\<close>. A fresh id is only allocated by a new call of
  \<open>requestEvent\<close>.
\<close>

theorem resubscribe_keeps_request_id:
  assumes "emitters_c c i = Some e"
    and "listeners e = 1"
  shows "(state_c c = Idle \<longrightarrow>
            sent_since (sent_c (unsubscribe i c)) (sent_c (subscribe i (unsubscribe i c))) =
              [ReqEventListen i (echannelName e) (ename e) (earg e)] \<and>
            lastRequestId_c (subscribe i (unsubscribe i c)) = lastRequestId_c c) \<and>
         (state_c c = Uninitialized \<longrightarrow>
            ReqEventListen i (echannelName e) (ename e) (earg e) \<in>
              set (sent_since (sent_c (unsubscribe i c))
                     (sent_c (onMessage_c ResInitialize (subscribe i (unsubscribe i c))))) \<and>
            lastRequestId_c (onMessage_c ResInitialize (subscribe i (unsubscribe i c))) =
              lastRequestId_c c) \<and>
         lastRequestId_c (requestEvent channelName name arg c) = Suc (lastRequestId_c c)"
proof -
  have idle: "sent_since (sent_c (unsubscribe i c)) (sent_c (subscribe i (unsubscribe i c))) =
                [ReqEventListen i (echannelName e) (ename e) (earg e)] \<and>
              lastRequestId_c (subscribe i (unsubscribe i c)) = lastRequestId_c c"
    if "state_c c = Idle"
    using assms that by (auto simp: client_defs sent_since_def)
  have uninit: "ReqEventListen i (echannelName e) (ename e) (earg e) \<in>
                  set (sent_since (sent_c (unsubscribe i c))
                         (sent_c (onMessage_c ResInitialize (subscribe i (unsubscribe i c))))) \<and>
                lastRequestId_c (onMessage_c ResInitialize (subscribe i (unsubscribe i c))) =
                  lastRequestId_c c"
    if u: "state_c c = Uninitialized"
  proof -
    let ?c1 = "unsubscribe i c"
    let ?c2 = "subscribe i ?c1"
    have st: "state_c ?c2 = Uninitialized"
      using assms u by (auto simp: client_defs)
    have "\<exists>q. onDidInitialize_c ?c2 = q @ [i]"
      using assms u by (auto simp: client_defs)
    then obtain q where q: "onDidInitialize_c ?c2 = q @ [i]"
      by blast
    have lo: "listen_of ?c2 i = Some (ReqEventListen i (echannelName e) (ename e) (earg e))"
      using assms u by (auto simp: client_defs listen_of_def)
    have s2: "sent_c ?c2 = sent_c ?c1"
      using assms u by (auto simp: client_defs)
    have l2: "lastRequestId_c ?c2 = lastRequestId_c c"
      using assms u by (auto simp: client_defs)
    have om: "onMessage_c ResInitialize ?c2 = initialize ?c2"
      using st by (simp add: onMessage_c_def isResponse_def)
    show ?thesis
      unfolding om initialize_sent initialize_other l2 s2 sent_since_def q
      using lo by (simp add: List.map_filter_def)
  qed
  have "lastRequestId_c (requestEvent channelName name arg c) = Suc (lastRequestId_c c)"
    by (simp add: requestEvent_def Let_def)
  with idle uninit show ?thesis
    by blast
qed

theorem resubscribe_keeps_request_id_witness:
  "emitters_c
     (run_c [Listen ''files'' ''changed'' Null, Subscribe 0, Receive ResInitialize]
        new_ChannelClient) 0 =
     Some \<lparr>listeners = 1, uninitializedPromise = False, echannelName = ''files'',
           ename = ''changed'', earg = Null\<rparr> \<and>
   sent_c
     (subscribe 0 (unsubscribe 0
        (run_c [Listen ''files'' ''changed'' Null, Subscribe 0, Receive ResInitialize]
           new_ChannelClient))) =
     [ReqEventListen 0 ''files'' ''changed'' Null, ReqEventDispose 0,
      ReqEventListen 0 ''files'' ''changed'' Null]"
proof -
  let ?c = "run_c [Listen ''files'' ''changed'' Null, Subscribe 0, Receive ResInitialize]
              new_ChannelClient"
  let ?e = "\<lparr>listeners = 1, uninitializedPromise = False, echannelName = ''files'',
             ename = ''changed'', earg = Null\<rparr>"
  have e: "emitters_c ?c 0 = Some ?e"
    by (simp add: client_defs)
  have i: "state_c ?c = Idle"
    by (simp add: client_defs)
  have u: "sent_c (unsubscribe 0 ?c) =
             [ReqEventListen 0 ''files'' ''changed'' Null, ReqEventDispose 0]"
    by (simp add: client_defs)
  have "length (sent_c (unsubscribe 0 ?c)) \<le> length (sent_c (subscribe 0 (unsubscribe 0 ?c)))"
    by (simp add: client_defs)
  then have "sent_c (subscribe 0 (unsubscribe 0 ?c)) =
               sent_c (unsubscribe 0 ?c) @
               sent_since (sent_c (unsubscribe 0 ?c)) (sent_c (subscribe 0 (unsubscribe 0 ?c)))"
    by (simp add: client_defs sent_since_def)
  with resubscribe_keeps_request_id [OF e, where channelName = "[]" and name = "[]" and arg = Null]
  show ?thesis
    using e i u by simp
qed

text \<open>
  C9, as stated, fails: a stream is subscribed while \<open>Uninitialized\<close>, the client is
  initialized (the listen goes out with id 0), the last observer unsubscribes
  (\<open>RequestEventDispose\<close> goes out) and an observer subscribes again. The
  \<open>RequestEventListen\<close> sent then carries id 0 again, not a fresh one.
\<close>

theorem resubscribe_fresh_id_counterexample:
  "sent_c (run_c [Listen ''files'' ''changed'' Null, Subscribe 0, Receive ResInitialize,
                  Unsubscribe 0, Subscribe 0] new_ChannelClient) =
     [ReqEventListen 0 ''files'' ''changed'' Null, ReqEventDispose 0,
      ReqEventListen 0 ''files'' ''changed'' Null] \<and>
   \<not> id_of (last (sent_c (run_c [Listen ''files'' ''changed'' Null, Subscribe 0,
                                 Receive ResInitialize, Unsubscribe 0, Subscribe 0]
                            new_ChannelClient))) \<noteq>
     id_of (hd (sent_c (run_c [Listen ''files'' ''changed'' Null, Subscribe 0,
                               Receive ResInitialize, Unsubscribe 0, Subscribe 0]
                          new_ChannelClient)))"
  by (simp add: client_defs)

section \<open>Properties of the IPC server\<close>

lemma register_all_channels:
  "channels_s (register_all al srv) =
     (\<lambda>k. case map_of al k of None \<Rightarrow> channels_s srv k | Some v \<Rightarrow> Some v)"
proof -
  have "channels_s
          (fold (\<lambda>name srv. case map_of al name of
                               None \<Rightarrow> srv
                             | Some ch \<Rightarrow> registerChannel name ch srv) ks srv) =
        (\<lambda>k. if k \<in> set ks then map_of al k else channels_s srv k)"
    if "set ks \<subseteq> fst ` set al" for ks srv
    using that
  proof (induction ks arbitrary: srv)
    case Nil
    then show ?case by simp
  next
    case (Cons k ks)
    then obtain v where v: "map_of al k = Some v"
      by (metis list.set_intros(1) map_of_eq_None_iff not_Some_eq subsetD)
    from Cons.prems have sub: "set ks \<subseteq> fst ` set al" by simp
    show ?case
      using v by (auto simp: Cons.IH [OF sub] registerChannel_def fun_eq_iff)
  qed
  from this [of "map fst al" srv]
  have *: "channels_s (register_all al srv) =
             (\<lambda>k. if k \<in> fst ` set al then map_of al k else channels_s srv k)"
    by (simp add: register_all_def)
  have "(k \<in> fst ` set al) = (map_of al k \<noteq> None)" for k
    by (simp add: map_of_eq_None_iff)
  then show ?thesis
    unfolding * by (auto simp: fun_eq_iff split: option.splits)
qed

text \<open>
  The connection on transport \<open>p\<close> is registered under client id \<open>i\<close> and its
  server hosts exactly the channels \<open>chs\<close>.
\<close>

definition serves :: "IPCServer \<Rightarrow> nat \<Rightarrow> string \<Rightarrow> (string \<rightharpoonup> channel) \<Rightarrow> bool" where
  "serves s p i chs =
     (case connections_i s p of
        Some (Established j channelServer channelClient) \<Rightarrow>
          j = i \<and> channels_s channelServer = chs
      | _ \<Rightarrow> False)"

lemma first_message_serves:
  "connections_i s p = Some Awaiting \<Longrightarrow>
   serves (step_i (Delivered p m) s) p (key_of m) (map_of (channels_i s))"
  by (auto simp: serves_def deliver_def first_message_def register_all_channels
        new_ChannelServer_def Let_def fun_eq_iff split: option.splits)

lemma step_i_serves:
  "serves s p i chs \<Longrightarrow> e \<noteq> Connected p \<Longrightarrow> serves (step_i e s) p i chs"
  by (cases e)
     (auto simp: serves_def registerChannel_i_def client_connected_def deliver_def
        first_message_def getChannel_call_def getChannel_listen_def route_def
        onMessage_s_channels Let_def
        split: option.splits connection.splits if_splits)

lemma run_i_serves:
  "serves s p i chs \<Longrightarrow> \<forall>e\<in>set evs. e \<noteq> Connected p \<Longrightarrow> serves (run_i evs s) p i chs"
  unfolding run_i_def
  by (induction evs arbitrary: s) (auto simp: step_i_serves)

text \<open>
  C8. When the router gives no connection id for a call (\<open>routeCall\<close>) or for a listen
  (\<open>routeEvent\<close>), the operation of the routed channel is rejected on the spot and the
  IPC server, with every connection and so every transport's send log, is exactly as it
  was: no message is sent for the operation, now or later.
\<close>

theorem unrouted_operation_is_rejected:
  "(routeCall r command arg = None \<or> routeCall r command arg = Some [] \<longrightarrow>
      getChannel_call channelName r command arg s = (RejectedNow no_id_error, s)) \<and>
   (routeEvent r event arg = None \<or> routeEvent r event arg = Some [] \<longrightarrow>
      getChannel_listen channelName r event arg s = (RejectedNow no_id_error, s))"
  by (auto simp: getChannel_call_def getChannel_listen_def route_def)

theorem unrouted_operation_is_rejected_witness:
  "routeCall \<lparr>routeCall = (\<lambda>c a. None), routeEvent = (\<lambda>e a. Some [])\<rparr> ''stat'' Null = None \<and>
   getChannel_call ''files'' \<lparr>routeCall = (\<lambda>c a. None), routeEvent = (\<lambda>e a. Some [])\<rparr>
       ''stat'' Null new_IPCServer =
     (RejectedNow (ErrorV ''Client id should be provided'' ''Error'' NoStack), new_IPCServer) \<and>
   getChannel_listen ''files'' \<lparr>routeCall = (\<lambda>c a. None), routeEvent = (\<lambda>e a. Some [])\<rparr>
       ''changed'' Null new_IPCServer =
     (RejectedNow (ErrorV ''Client id should be provided'' ''Error'' NoStack), new_IPCServer)"
  using unrouted_operation_is_rejected
          [where r = "\<lparr>routeCall = (\<lambda>c a. None), routeEvent = (\<lambda>e a. Some [])\<rparr>"
             and command = "''stat''" and event = "''changed''" and arg = Null
             and channelName = "''files''" and s = new_IPCServer]
  by (simp add: no_id_error_def)

text \<open>
  C10. \<open>registerChannel\<close> of the IPC server changes its channel registry and nothing
  else: the connections, their \<open>ChannelServer\<close>s included, stay as they are. A
  connection's \<open>ChannelServer\<close> gets the channels that the registry holds when the
  connection registers (its first message arrives), and whatever happens to the IPC
  server afterwards, later registrations included, it hosts exactly those channels: a
  channel registered later is never visible to it.
\<close>

theorem registerChannel_leaves_connections:
  assumes "connections_i s p = Some Awaiting"
    and "\<forall>e\<in>set evs. e \<noteq> Connected p"
  shows "connections_i (registerChannel_i channelName ch s) = connections_i s \<and>
         channelClients_i (registerChannel_i channelName ch s) = channelClients_i s \<and>
         onClientAdded_i (registerChannel_i channelName ch s) = onClientAdded_i s \<and>
         map_of (channels_i (registerChannel_i channelName ch s)) =
           (map_of (channels_i s))(channelName \<mapsto> ch) \<and>
         (\<exists>channelServer channelClient.
            connections_i (run_i (Delivered p (Hello i) # evs) s) p =
              Some (Established i channelServer channelClient) \<and>
            channels_s channelServer = map_of (channels_i s))"
proof -
  have "serves (step_i (Delivered p (Hello i)) s) p i (map_of (channels_i s))"
    using first_message_serves [OF assms(1), of "Hello i"] by simp
  then have "serves (run_i evs (step_i (Delivered p (Hello i)) s)) p i (map_of (channels_i s))"
    using assms(2) by (rule run_i_serves)
  then have "serves (run_i (Delivered p (Hello i) # evs) s) p i (map_of (channels_i s))"
    by (simp add: run_i_def)
  then show ?thesis
    by (auto simp: serves_def registerChannel_i_def update_conv'
          split: option.splits connection.splits)
qed

theorem registerChannel_leaves_connections_witness:
  "connections_i (client_connected 0 new_IPCServer) 0 = Some Awaiting \<and>
   (\<exists>channelServer channelClient.
      connections_i
        (run_i [Delivered 0 (Hello ''window:1''),
                RegisterChannel ''late'' \<lparr>call = (\<lambda>c a. Pending), listen = (\<lambda>e a. Stream)\<rparr>,
                Delivered 0 (ReqPromise 0 ''late'' ''ping'' Null)]
          (client_connected 0 new_IPCServer)) 0 =
        Some (Established ''window:1'' channelServer channelClient) \<and>
      channels_s channelServer = map_of (channels_i (client_connected 0 new_IPCServer)))"
  using registerChannel_leaves_connections
          [of "client_connected 0 new_IPCServer" 0
              "[RegisterChannel ''late'' \<lparr>call = (\<lambda>c a. Pending), listen = (\<lambda>e a. Stream)\<rparr>,
                Delivered 0 (ReqPromise 0 ''late'' ''ping'' Null)]"
              "''late''" "\<lparr>call = (\<lambda>c a. Pending), listen = (\<lambda>e a. Stream)\<rparr>" "''window:1''"]
  by (simp add: client_connected_def new_IPCServer_def)

end
